theory Spec2Isabelle
  imports Complex_Main "HOL-Library.Product_Lexorder"
begin

section \<open>Time\<close>

text \<open>
  A \<^verbatim>\<open>datetime\<close> is an instant counted in microseconds, the resolution of Python's
  \<^verbatim>\<open>datetime\<close>; a \<^verbatim>\<open>timedelta\<close> is a number of microseconds. Every call of
  \<^verbatim>\<open>datetime.now(timezone.utc)\<close> in the source is a parameter of the function that
  makes it (\<open>now\<close>, or \<open>now1\<close>, \<open>now2\<close> in the order of the calls), so two readings of
  the clock in one method may differ. The upper end of \<^verbatim>\<open>datetime\<close> (year 9999) is not
  part of the model.
\<close>

type_synonym timestamp = int

definition timedelta_minutes :: "int \<Rightarrow> int" where
  "timedelta_minutes m = m * 60000000"


section \<open>Exceptions\<close>

text \<open>
  The messages of \<^verbatim>\<open>ValueError\<close> are f-strings in the source; the model keeps which
  check raised and the id it names.
\<close>

datatype validation =
    ContactNotFound int
  | InvalidPhoneNumber
  | CampaignNotFound int
  | CampaignNotActive int
  | CouldNotConvertToFloat

datatype exn =
    ValueError validation
  | InvalidPhoneNumberError
  | IntegrityError
  | TypeError
  | AttributeError
  | UnboundLocalError
  | ZeroDivisionError
  | TwilioApiError "string option" string
  | OtherError string

section \<open>Tables\<close>

text \<open>
  The rows of \<^verbatim>\<open>sms_queue\<close>, \<^verbatim>\<open>messages\<close> and \<^verbatim>\<open>message_logs\<close>, with the columns the
  services read and write. Statuses are strings, as in the source. A nullable column is
  an \<open>option\<close>. \<open>qid\<close> is the column \<^verbatim>\<open>id\<close>; columns of \<^verbatim>\<open>messages\<close> and
  \<^verbatim>\<open>message_logs\<close> whose names are also columns of \<^verbatim>\<open>sms_queue\<close> carry the prefix
  \<open>msg_\<close> or \<open>log_\<close>.
\<close>

record queue_item =
  qid :: int
  campaign_id :: "int option"
  contact_id :: int
  message_content :: string
  priority :: int
  status :: string
  attempts :: nat
  max_attempts :: int
  scheduled_at :: "timestamp option"
  next_retry_at :: "timestamp option"
  last_attempt_at :: "timestamp option"
  processed_at :: "timestamp option"
  external_message_id :: "string option"
  error_message :: "string option"
  created_at :: timestamp

record contact =
  id_contact :: int
  numero_telephone :: "string option"

record campaign =
  id_campagne :: int
  statut :: string
  mailing_lists :: "int list"

text \<open>
  The price a provider response carries under \<^verbatim>\<open>price\<close>, by what the source does with
  it: \<open>NoPrice\<close> is a missing key or a falsy value (\<^verbatim>\<open>None\<close>, \<^verbatim>\<open>""\<close>, \<^verbatim>\<open>0\<close>),
  \<open>BadPrice\<close> a truthy value on which \<^verbatim>\<open>float()\<close> raises, \<open>Price r\<close> a truthy value
  that \<^verbatim>\<open>float()\<close> converts to \<open>r\<close>. Floats are modelled as reals.
\<close>

datatype price = NoPrice | BadPrice | Price real

text \<open>
  The entry of a response under \<^verbatim>\<open>status\<close>: the key is absent, or it is present with
  the value \<^verbatim>\<open>None\<close>, or with a string.
\<close>

datatype status_field = StatusAbsent | StatusNone | StatusText string

record response =
  sid :: "string option"
  resp_status :: status_field
  resp_price :: price
  resp_error_code :: "string option"
  resp_error_message :: "string option"

definition empty_response :: response where
  "empty_response = \<lparr>sid = None, resp_status = StatusAbsent, resp_price = NoPrice,
     resp_error_code = None, resp_error_message = None\<rparr>"

record message =
  id_message :: int
  contenu :: string
  date_envoi :: timestamp
  statut_livraison :: string
  identifiant_expediteur :: string
  final_status :: "string option"
  delivery_attempts :: int
  delivery_timestamp :: "timestamp option"
  msg_external_message_id :: "string option"
  msg_error_message :: "string option"
  cost :: "real option"
  id_liste :: "int option"
  id_contact_msg :: int
  id_campagne_msg :: "int option"
  msg_queue_item_id :: "int option"
  updated_at :: "timestamp option"

record message_log =
  log_id :: int
  message_id :: int
  log_queue_item_id :: "int option"
  log_status :: string
  provider_status :: "string option"
  provider_response :: response
  error_code :: "string option"
  log_error_message :: "string option"
  attempt_number :: int
  log_external_message_id :: "string option"
  log_cost :: "real option"
  processing_duration :: "int option"

text \<open>
  The database session: the tables in row order, and the next value of each table's id
  sequence.
\<close>

record db =
  contacts :: "contact list"
  campaigns :: "campaign list"
  sms_queue :: "queue_item list"
  messages :: "message list"
  message_logs :: "message_log list"
  next_queue_id :: int
  next_message_id :: int
  next_log_id :: int

section \<open>Python values\<close>

text \<open>Truthiness of an optional string and of an optional number.\<close>

definition truthy_str :: "string option \<Rightarrow> bool" where
  "truthy_str v = (case v of None \<Rightarrow> False | Some s \<Rightarrow> s \<noteq> [])"

definition truthy_num :: "real option \<Rightarrow> bool" where
  "truthy_num v = (case v of None \<Rightarrow> False | Some r \<Rightarrow> r \<noteq> 0)"

section \<open>Phone validation (app/utils/phone_validator.py)\<close>

text \<open>
  The library \<^verbatim>\<open>phonenumbers\<close> is a parameter: \<open>lib number region\<close> is the E.164
  form when the number parses and is valid, and \<open>None\<close> when parsing raises or the
  number is not valid.
\<close>

type_synonym phonelib = "string \<Rightarrow> string option \<Rightarrow> string option"

text \<open>The ASCII characters that \<^verbatim>\<open>str.strip()\<close> removes.\<close>

definition whitespace :: "char list" where
  "whitespace = [CHR '' '', CHR 0x09, CHR 0x0A, CHR 0x0B, CHR 0x0C, CHR 0x0D,
                 CHR 0x1C, CHR 0x1D, CHR 0x1E, CHR 0x1F]"

definition strip :: "string \<Rightarrow> string" where
  "strip s = rev (dropWhile (\<lambda>c. c \<in> set whitespace)
               (rev (dropWhile (\<lambda>c. c \<in> set whitespace) s)))"

definition validate_and_format_phone_number ::
  "phonelib \<Rightarrow> string option \<Rightarrow> string option \<Rightarrow> exn + string" where
  "validate_and_format_phone_number lib phone_number country_code =
     (case phone_number of
        None \<Rightarrow> Inl InvalidPhoneNumberError
      | Some p \<Rightarrow>
          if p = [] \<or> strip p = [] then Inl InvalidPhoneNumberError
          else
            (let cleaned_number =
               filter (\<lambda>c. c \<noteq> CHR ''-'')
                 (filter (\<lambda>c. c \<noteq> CHR ''.'')
                   (filter (\<lambda>c. c \<noteq> CHR '' '') (strip p)))
             in case lib cleaned_number country_code of
                  None \<Rightarrow> Inl InvalidPhoneNumberError
                | Some e164 \<Rightarrow> Inr e164))"

section \<open>Settings\<close>

text \<open>
  \<^verbatim>\<open>app.core.config.settings\<close>: an attribute that is absent is \<open>None\<close>. The rate limit
  is kept by what \<^verbatim>\<open>int()\<close> makes of it.
\<close>

datatype rate_setting = RateUnset | RateFalsy | RateMalformed | RateInt int

record settings =
  DEFAULT_COUNTRY_CODE :: "string option"
  SMS_RATE_LIMIT :: rate_setting
  BASE_URL :: "string option"
  TWILIO_PHONE_NUMBER :: "string option"

definition getattr_default :: "'a option \<Rightarrow> 'a \<Rightarrow> 'a" where
  "getattr_default v d = (case v of None \<Rightarrow> d | Some x \<Rightarrow> x)"

section \<open>The queue service (app/services/sms_queue_service.py)\<close>

text \<open>
  The check constraints of \<^verbatim>\<open>sms_queue\<close>
  (\<^verbatim>\<open>ck_sms_queue_priority_range\<close>, \<^verbatim>\<open>ck_sms_queue_max_attempts_range\<close> of the
  migration): the database refuses a row outside them when the insert is committed.
\<close>

definition sms_queue_checks :: "queue_item \<Rightarrow> bool" where
  "sms_queue_checks q =
     (0 \<le> priority q \<and> priority q \<le> 10 \<and> 1 \<le> max_attempts q \<and> max_attempts q \<le> 10)"

text \<open>\<^verbatim>\<open>query(...).filter(id == i).first()\<close> on each table.\<close>

definition get_contact :: "db \<Rightarrow> int \<Rightarrow> contact option" where
  "get_contact d i = find (\<lambda>c. id_contact c = i) (contacts d)"

definition get_campaign :: "db \<Rightarrow> int \<Rightarrow> campaign option" where
  "get_campaign d i = find (\<lambda>c. id_campagne c = i) (campaigns d)"

definition get_queue_item :: "db \<Rightarrow> int \<Rightarrow> queue_item option" where
  "get_queue_item d i = find (\<lambda>q. qid q = i) (sms_queue d)"

text \<open>
  \<^verbatim>\<open>self.db.commit()\<close> after a queue item was changed in place: the row with the item's
  id takes the item's values.
\<close>

definition commit_queue_item :: "queue_item \<Rightarrow> db \<Rightarrow> db" where
  "commit_queue_item q d =
     d\<lparr>sms_queue := map (\<lambda>r. if qid r = qid q then q else r) (sms_queue d)\<rparr>"

text \<open>
  Modelled from the spec: the value of \<^verbatim>\<open>attempts\<close> in a row that \<open>add_to_queue\<close> has
  inserted. The constructor call does not set the column, and the declaration of the
  table (\<^verbatim>\<open>app/db/models.py\<close>) is not among the sources; the specification has submit
  set \<^verbatim>\<open>attempts = 0\<close>.
\<close>

definition default_attempts :: nat where
  "default_attempts = 0"

text \<open>
  \<open>add_to_queue\<close>: \<open>now\<close> is the clock read for a missing \<^verbatim>\<open>scheduled_at\<close>, \<open>created\<close>
  the server's \<^verbatim>\<open>now()\<close> at the insert. The three checks raise \<^verbatim>\<open>ValueError\<close>; the
  commit raises \<^verbatim>\<open>IntegrityError\<close> when a check constraint refuses the row, and then
  no row is stored. The nullable columns that the constructor call does not set are
  null.
\<close>

definition add_to_queue ::
  "phonelib \<Rightarrow> settings \<Rightarrow> timestamp \<Rightarrow> timestamp \<Rightarrow> int \<Rightarrow> int \<Rightarrow> string \<Rightarrow>
   timestamp option \<Rightarrow> int \<Rightarrow> int \<Rightarrow> db \<Rightarrow> (exn + queue_item) \<times> db" where
  "add_to_queue lib cfg now created campaign contact_i content scheduled prio max_att d =
     (let scheduled' = (case scheduled of None \<Rightarrow> now | Some t \<Rightarrow> t) in
      case get_contact d contact_i of
        None \<Rightarrow> (Inl (ValueError (ContactNotFound contact_i)), d)
      | Some c \<Rightarrow>
         (case validate_and_format_phone_number lib (numero_telephone c)
                 (Some (getattr_default (DEFAULT_COUNTRY_CODE cfg) ''FR'')) of
            Inl e \<Rightarrow> (Inl (ValueError InvalidPhoneNumber), d)
          | Inr e164 \<Rightarrow>
             (case get_campaign d campaign of
                None \<Rightarrow> (Inl (ValueError (CampaignNotFound campaign)), d)
              | Some cmp \<Rightarrow>
                 if statut cmp \<notin> set [''active'', ''scheduled'']
                 then (Inl (ValueError (CampaignNotActive campaign)), d)
                 else
                   (let queue_item =
                      \<lparr>qid = next_queue_id d, campaign_id = Some campaign,
                       contact_id = contact_i, message_content = content,
                       priority = prio, status = ''pending'',
                       attempts = default_attempts,
                       max_attempts = max_att, scheduled_at = Some scheduled',
                       next_retry_at = None, last_attempt_at = None,
                       processed_at = None, external_message_id = None,
                       error_message = None, created_at = created\<rparr>
                    in if sms_queue_checks queue_item
                       then (Inr queue_item,
                             d\<lparr>sms_queue := sms_queue d @ [queue_item],
                               next_queue_id := next_queue_id d + 1\<rparr>)
                       else (Inl IntegrityError, d)))))"

text \<open>
  The filter of \<open>get_pending_messages\<close>. A null \<^verbatim>\<open>scheduled_at\<close> compares to null in
  SQL, and the row is not selected.
\<close>

definition pending_filter :: "timestamp \<Rightarrow> timestamp \<Rightarrow> queue_item \<Rightarrow> bool" where
  "pending_filter now1 now2 q =
     (status q = ''pending'' \<and>
      (case scheduled_at q of None \<Rightarrow> False | Some s \<Rightarrow> s \<le> now1) \<and>
      (case next_retry_at q of None \<Rightarrow> True | Some r \<Rightarrow> r \<le> now2))"

text \<open>
  \<open>get_pending_messages\<close>: \<open>now1\<close> and \<open>now2\<close> are the two clock readings of the filter.
  \<^verbatim>\<open>ORDER BY\<close> is a stable sort of the table's rows by the key, \<^verbatim>\<open>LIMIT\<close> takes a
  number of rows (the callers pass a positive batch size).
\<close>

definition get_pending_messages ::
  "timestamp \<Rightarrow> timestamp \<Rightarrow> nat \<Rightarrow> bool \<Rightarrow> db \<Rightarrow> queue_item list" where
  "get_pending_messages now1 now2 limit priority_order d =
     (let query = filter (pending_filter now1 now2) (sms_queue d);
          ordered = (if priority_order
                     then sort_key (\<lambda>q. (priority q, created_at q)) query
                     else sort_key created_at query)
      in take limit ordered)"

text \<open>
  \<open>mark_processing\<close> on a list of queue items: one \<^verbatim>\<open>UPDATE\<close> of the rows that are
  still pending, then the rows of the given ids are read again.
\<close>

definition mark_processing :: "timestamp \<Rightarrow> queue_item list \<Rightarrow> db \<Rightarrow> queue_item list \<times> db" where
  "mark_processing now queue_items d =
     (if queue_items = [] then ([], d)
      else
        (let item_ids = map qid queue_items;
             d' = d\<lparr>sms_queue :=
                     map (\<lambda>r. if qid r \<in> set item_ids \<and> status r = ''pending''
                              then r\<lparr>status := ''processing'', last_attempt_at := Some now\<rparr>
                              else r)
                         (sms_queue d)\<rparr>
         in (filter (\<lambda>r. qid r \<in> set item_ids) (sms_queue d'), d')))"

text \<open>
  \<open>mark_sent\<close> and \<open>mark_failed\<close> change the queue item they are given; the result is
  the item as committed. In \<open>mark_failed\<close>, \<open>now1\<close> is the reading stored in
  \<^verbatim>\<open>last_attempt_at\<close> and \<open>now2\<close> the one the backoff is added to.
\<close>

definition mark_sent :: "timestamp \<Rightarrow> queue_item \<Rightarrow> string option \<Rightarrow> queue_item" where
  "mark_sent now queue_item ext =
     queue_item\<lparr>status := ''sent'', processed_at := Some now,
                external_message_id := ext, error_message := None\<rparr>"

definition mark_failed ::
  "timestamp \<Rightarrow> timestamp \<Rightarrow> queue_item \<Rightarrow> string \<Rightarrow> bool \<Rightarrow> queue_item" where
  "mark_failed now1 now2 queue_item err should_retry =
     (let q1 = queue_item\<lparr>attempts := attempts queue_item + 1,
                           last_attempt_at := Some now1,
                           error_message := Some err\<rparr>
      in if should_retry \<and> int (attempts q1) < max_attempts q1
         then (let backoff_minutes = 2 ^ attempts q1
               in q1\<lparr>next_retry_at := Some (now2 + timedelta_minutes backoff_minutes),
                     status := ''pending''\<rparr>)
         else q1\<lparr>status := ''failed''\<rparr>)"

definition cancel_message :: "timestamp \<Rightarrow> int \<Rightarrow> string \<Rightarrow> db \<Rightarrow> bool \<times> db" where
  "cancel_message now queue_item_id reason d =
     (case get_queue_item d queue_item_id of
        None \<Rightarrow> (False, d)
      | Some queue_item \<Rightarrow>
          if status queue_item \<notin> set [''pending'', ''processing''] then (False, d)
          else (True, commit_queue_item
                        (queue_item\<lparr>status := ''cancelled'', error_message := Some reason,
                                    processed_at := Some now\<rparr>) d))"

definition reset_for_retry :: "int \<Rightarrow> db \<Rightarrow> bool \<times> db" where
  "reset_for_retry queue_item_id d =
     (case get_queue_item d queue_item_id of
        None \<Rightarrow> (False, d)
      | Some queue_item \<Rightarrow>
          if status queue_item \<notin> set [''failed'', ''retry_pending''] then (False, d)
          else (True, commit_queue_item
                        (queue_item\<lparr>status := ''pending'', next_retry_at := None,
                                    error_message := None\<rparr>) d))"

section \<open>The logging service (app/services/message_logging_service.py)\<close>

text \<open>
  \<^verbatim>\<open>str.lower()\<close> on the ASCII letters; the provider's status words are ASCII.
\<close>

definition lower_char :: "char \<Rightarrow> char" where
  "lower_char c =
     (case map_of (zip ''ABCDEFGHIJKLMNOPQRSTUVWXYZ'' ''abcdefghijklmnopqrstuvwxyz'') c of
        None \<Rightarrow> c
      | Some l \<Rightarrow> l)"

definition lower :: "string \<Rightarrow> string" where
  "lower s = map lower_char s"

definition twilio_mapping :: "(string \<times> string) list" where
  "twilio_mapping =
     [(''queued'', ''sent''),
      (''sending'', ''sent''),
      (''sent'', ''sent''),
      (''delivered'', ''delivered''),
      (''failed'', ''failed''),
      (''undelivered'', ''failed''),
      (''read'', ''delivered'')]"

text \<open>\<^verbatim>\<open>_map_provider_status\<close>: the dictionary is asked for the lowered status.\<close>

definition map_provider_status :: "string \<Rightarrow> string" where
  "map_provider_status prov_status =
     (case map_of twilio_mapping (lower prov_status) of
        None \<Rightarrow> prov_status
      | Some internal \<Rightarrow> internal)"

text \<open>\<^verbatim>\<open>_extract_cost_from_response\<close>.\<close>

definition extract_cost_from_response :: "response \<Rightarrow> real option" where
  "extract_cost_from_response resp =
     (case resp_price resp of
        NoPrice \<Rightarrow> None
      | BadPrice \<Rightarrow> None
      | Price r \<Rightarrow> Some r)"

definition get_sender_identifier :: "settings \<Rightarrow> string" where
  "get_sender_identifier cfg = getattr_default (TWILIO_PHONE_NUMBER cfg) ''SMS-PLATFORM''"

definition get_mailing_list_id :: "db \<Rightarrow> queue_item \<Rightarrow> int option" where
  "get_mailing_list_id d item =
     (case campaign_id item of
        None \<Rightarrow> None
      | Some c \<Rightarrow>
         (case get_campaign d c of
            None \<Rightarrow> None
          | Some cmp \<Rightarrow> (case mailing_lists cmp of [] \<Rightarrow> None | l # ls \<Rightarrow> Some l)))"

text \<open>
  \<^verbatim>\<open>self.db.commit()\<close> after a message was changed in place.
\<close>

definition commit_message :: "message \<Rightarrow> db \<Rightarrow> db" where
  "commit_message m d =
     d\<lparr>messages := map (\<lambda>r. if id_message r = id_message m then m else r) (messages d)\<rparr>"

text \<open>
  \<open>log_message_event\<close>: \<open>now1\<close> is the reading stored in \<^verbatim>\<open>updated_at\<close>, \<open>now2\<close> the
  one stored in \<^verbatim>\<open>delivery_timestamp\<close>. The result is the log row and the message as
  committed. \<^verbatim>\<open>event_type\<close> is a parameter of the method that no column receives.
\<close>

definition log_message_event ::
  "timestamp \<Rightarrow> timestamp \<Rightarrow> message \<Rightarrow> string \<Rightarrow> string \<Rightarrow> string option \<Rightarrow>
   response option \<Rightarrow> string option \<Rightarrow> string option \<Rightarrow> string option \<Rightarrow> real option \<Rightarrow>
   int option \<Rightarrow> int option \<Rightarrow> db \<Rightarrow> (message_log \<times> message) \<times> db" where
  "log_message_event now1 now2 msg st event_type prov_status prov_response err_code
       err_message ext_id new_cost duration q_item_id d =
     (let attempt = int (length (filter (\<lambda>l. message_id l = id_message msg)
                                        (message_logs d))) + 1;
          log_entry =
            \<lparr>log_id = next_log_id d, message_id = id_message msg,
             log_queue_item_id = q_item_id, log_status = st,
             provider_status = prov_status,
             provider_response =
               (case prov_response of None \<Rightarrow> empty_response | Some r \<Rightarrow> r),
             error_code = err_code, log_error_message = err_message,
             attempt_number = attempt, log_external_message_id = ext_id,
             log_cost = new_cost, processing_duration = duration\<rparr>;
          m1 = msg\<lparr>statut_livraison := st, delivery_attempts := attempt,
                    updated_at := Some now1\<rparr>;
          m2 = (if truthy_str ext_id then m1\<lparr>msg_external_message_id := ext_id\<rparr> else m1);
          m3 = (if truthy_str err_message then m2\<lparr>msg_error_message := err_message\<rparr>
                else m2);
          m4 = (if truthy_num new_cost then m3\<lparr>cost := new_cost\<rparr> else m3);
          m5 = (if st \<in> set [''delivered'', ''failed'', ''bounced'']
                then (let m = m4\<lparr>final_status := Some st\<rparr>
                      in if st = ''delivered'' then m\<lparr>delivery_timestamp := Some now2\<rparr>
                         else m)
                else m4)
      in ((log_entry, m5),
          commit_message m5
            (d\<lparr>message_logs := message_logs d @ [log_entry],
               next_log_id := next_log_id d + 1\<rparr>)))"

text \<open>
  \<open>create_message_record\<close>: \<open>now0\<close> is the reading stored in \<^verbatim>\<open>date_envoi\<close>; the
  message returned is the one the first log event has updated.
\<close>

definition create_message_record ::
  "settings \<Rightarrow> timestamp \<Rightarrow> timestamp \<Rightarrow> timestamp \<Rightarrow> queue_item \<Rightarrow> string \<Rightarrow>
   string option \<Rightarrow> db \<Rightarrow> message \<times> db" where
  "create_message_record cfg now0 now1 now2 item initial_status ext_id d =
     (let msg =
            \<lparr>id_message = next_message_id d, contenu = message_content item,
             date_envoi = now0, statut_livraison = initial_status,
             identifiant_expediteur = get_sender_identifier cfg,
             final_status = None, delivery_attempts = 1, delivery_timestamp = None,
             msg_external_message_id = ext_id, msg_error_message = None, cost = None,
             id_liste = get_mailing_list_id d item, id_contact_msg = contact_id item,
             id_campagne_msg = campaign_id item, msg_queue_item_id = Some (qid item),
             updated_at = None\<rparr>;
          d1 = d\<lparr>messages := messages d @ [msg],
                  next_message_id := next_message_id d + 1\<rparr>;
          logged = log_message_event now1 now2 msg initial_status ''message_created''
                     None None None None None None None (Some (qid item)) d1
      in (snd (fst logged), snd logged))"

definition get_message_by_external_id :: "db \<Rightarrow> string \<Rightarrow> message option" where
  "get_message_by_external_id d ext_id =
     find (\<lambda>m. msg_external_message_id m = Some ext_id) (messages d)"

definition update_delivery_status ::
  "timestamp \<Rightarrow> timestamp \<Rightarrow> string \<Rightarrow> string \<Rightarrow> response \<Rightarrow> db \<Rightarrow> bool \<times> db" where
  "update_delivery_status now1 now2 ext_id prov_status prov_response d =
     (case get_message_by_external_id d ext_id of
        None \<Rightarrow> (False, d)
      | Some msg \<Rightarrow>
         (let internal_status = map_provider_status prov_status;
              new_cost = extract_cost_from_response prov_response;
              err_code = resp_error_code prov_response;
              err_message = resp_error_message prov_response
          in (True,
              snd (log_message_event now1 now2 msg internal_status ''delivery_update''
                     (Some prov_status) (Some prov_response) err_code err_message None
                     new_cost None None d))))"

text \<open>
  \<open>get_campaign_message_stats\<close>. A dictionary of counts is a map; \<^verbatim>\<open>/\<close> raises
  \<^verbatim>\<open>ZeroDivisionError\<close> on a zero divisor.
\<close>

record campaign_stats =
  total_messages :: nat
  status_breakdown :: "string \<rightharpoonup> nat"
  delivery_rate :: real
  average_delivery_time :: real
  total_cost :: real
  retry_rate :: real
  error_summary :: "string \<rightharpoonup> nat"

definition truediv :: "real \<Rightarrow> real \<Rightarrow> exn + real" where
  "truediv a b = (if b = 0 then Inl ZeroDivisionError else Inr (a / b))"

definition dict_get :: "('k \<rightharpoonup> nat) \<Rightarrow> 'k \<Rightarrow> nat \<Rightarrow> nat" where
  "dict_get m k dflt = (case m k of None \<Rightarrow> dflt | Some v \<Rightarrow> v)"

definition count_key :: "('k \<rightharpoonup> nat) \<Rightarrow> 'k \<Rightarrow> ('k \<rightharpoonup> nat)" where
  "count_key m k = m(k \<mapsto> dict_get m k 0 + 1)"

definition shown_status :: "message \<Rightarrow> string" where
  "shown_status m =
     (case final_status m of
        None \<Rightarrow> statut_livraison m
      | Some f \<Rightarrow> if f = [] then statut_livraison m else f)"

definition total_seconds :: "int \<Rightarrow> real" where
  "total_seconds delta = real_of_int delta / 1000000"

definition error_key :: "message_log \<Rightarrow> string" where
  "error_key l =
     (case error_code l of None \<Rightarrow> ''None'' | Some c \<Rightarrow> c) @ '': '' @
     (case log_error_message l of None \<Rightarrow> ''None'' | Some m \<Rightarrow> m)"

definition get_campaign_message_stats :: "int \<Rightarrow> db \<Rightarrow> exn + campaign_stats" where
  "get_campaign_message_stats campaign d =
     (let msgs = filter (\<lambda>m. id_campagne_msg m = Some campaign) (messages d);
          stats = \<lparr>total_messages = length msgs, status_breakdown = Map.empty,
                   delivery_rate = 0, average_delivery_time = 0, total_cost = 0,
                   retry_rate = 0, error_summary = Map.empty\<rparr>
      in if msgs = [] then Inr stats
         else
          (let breakdown = foldl (\<lambda>b m. count_key b (shown_status m)) Map.empty msgs;
               delivered_count = dict_get breakdown ''delivered'' 0
           in case truediv (real delivered_count) (real (length msgs)) of
                Inl e \<Rightarrow> Inl e
              | Inr rate \<Rightarrow>
                 (let delivered_messages = filter (\<lambda>m. delivery_timestamp m \<noteq> None) msgs;
                      total_delivery_time =
                        sum_list (map (\<lambda>m. case delivery_timestamp m of
                                               None \<Rightarrow> 0
                                             | Some t \<Rightarrow> total_seconds (t - date_envoi m))
                                      delivered_messages)
                  in case (if delivered_messages \<noteq> []
                           then truediv total_delivery_time
                                  (real (length delivered_messages))
                           else Inr 0) of
                       Inl e \<Rightarrow> Inl e
                     | Inr average \<Rightarrow>
                        (let costs = sum_list (map (\<lambda>m. case cost m of
                                                            None \<Rightarrow> 0 | Some c \<Rightarrow> c)
                                           (filter (\<lambda>m. truthy_num (cost m)) msgs));
                             retried_messages = filter (\<lambda>m. delivery_attempts m > 1) msgs
                         in case truediv (real (length retried_messages))
                                   (real (length msgs)) of
                              Inl e \<Rightarrow> Inl e
                            | Inr retried \<Rightarrow>
                               (let error_logs =
                                      filter (\<lambda>l. error_code l \<noteq> None \<and>
                                                   list_ex (\<lambda>m. id_message m = message_id l) msgs)
                                             (message_logs d)
                                in Inr (stats
                                     \<lparr>status_breakdown := breakdown,
                                      delivery_rate := rate * 100,
                                      average_delivery_time := average,
                                      total_cost := costs,
                                      retry_rate := retried * 100,
                                      error_summary :=
                                        foldl (\<lambda>s l. count_key s (error_key l))
                                              Map.empty error_logs\<rparr>))))))"

section \<open>Calls with keyword arguments\<close>

text \<open>
  The dispatcher calls the queue service with values and keyword names of its own
  choice, and Python checks neither before the call. The values it passes are tagged
  with their Python type; a call binds its keywords to the method's parameters by name
  and raises \<^verbatim>\<open>TypeError\<close>, before the body runs, when a keyword is no parameter's
  name or a parameter without default gets no value.
\<close>

datatype pyval =
    PyNone
  | PyInt int
  | PyStr string
  | PyBool bool
  | PyItem queue_item
  | PyItems "queue_item list"
  | PyResp response

definition truthy :: "pyval \<Rightarrow> bool" where
  "truthy v =
     (case v of
        PyNone \<Rightarrow> False
      | PyInt n \<Rightarrow> n \<noteq> 0
      | PyStr s \<Rightarrow> s \<noteq> []
      | PyBool b \<Rightarrow> b
      | PyItem q \<Rightarrow> True
      | PyItems qs \<Rightarrow> qs \<noteq> []
      | PyResp r \<Rightarrow> r \<noteq> empty_response)"

definition bind_keywords ::
  "string list \<Rightarrow> string list \<Rightarrow> (string \<times> pyval) list \<Rightarrow> exn + (string \<rightharpoonup> pyval)" where
  "bind_keywords params required kwargs =
     (if list_all (\<lambda>k. k \<in> set params) (map fst kwargs) \<and>
         list_all (\<lambda>p. p \<in> set (map fst kwargs)) required
      then Inr (map_of kwargs)
      else Inl TypeError)"

text \<open>
  \<open>mark_processing\<close> on whatever value it is given. \<^verbatim>\<open>not queue_items\<close> returns the
  empty list for a falsy value; of the others only a list of queue items can be
  iterated for its ids.
\<close>

definition mark_processing_py ::
  "timestamp \<Rightarrow> pyval \<Rightarrow> db \<Rightarrow> (exn + queue_item list) \<times> db" where
  "mark_processing_py now v d =
     (if \<not> truthy v then (Inr [], d)
      else
        (case v of
           PyItems qs \<Rightarrow> (Inr (fst (mark_processing now qs d)), snd (mark_processing now qs d))
         | PyStr s \<Rightarrow> (Inl AttributeError, d)
         | PyResp r \<Rightarrow> (Inl AttributeError, d)
         | _ \<Rightarrow> (Inl TypeError, d)))"

text \<open>
  \<open>mark_sent\<close> and \<open>mark_failed\<close> called with keywords. A value that is no queue item
  has none of its attributes. The other arguments are followed for the types the
  methods annotate (a string, or none for the external id); with a value of another
  type the call ends in an error.
\<close>

definition mark_sent_params :: "string list" where
  "mark_sent_params = [''queue_item'', ''external_message_id'']"

definition mark_failed_params :: "string list" where
  "mark_failed_params = [''queue_item'', ''error_message'', ''should_retry'']"

definition mark_sent_py ::
  "timestamp \<Rightarrow> (string \<times> pyval) list \<Rightarrow> db \<Rightarrow> (exn + unit) \<times> db" where
  "mark_sent_py now kwargs d =
     (case bind_keywords mark_sent_params mark_sent_params kwargs of
        Inl e \<Rightarrow> (Inl e, d)
      | Inr env \<Rightarrow>
         (case env ''queue_item'' of
            Some (PyItem q) \<Rightarrow>
              (case env ''external_message_id'' of
                 Some (PyStr ext) \<Rightarrow> (Inr (), commit_queue_item (mark_sent now q (Some ext)) d)
               | Some PyNone \<Rightarrow> (Inr (), commit_queue_item (mark_sent now q None) d)
               | _ \<Rightarrow> (Inl (OtherError ''StatementError''), d))
          | _ \<Rightarrow> (Inl AttributeError, d)))"

definition mark_failed_py ::
  "timestamp \<Rightarrow> timestamp \<Rightarrow> (string \<times> pyval) list \<Rightarrow> db \<Rightarrow> (exn + unit) \<times> db" where
  "mark_failed_py now1 now2 kwargs d =
     (case bind_keywords mark_failed_params [''queue_item'', ''error_message''] kwargs of
        Inl e \<Rightarrow> (Inl e, d)
      | Inr env \<Rightarrow>
         (case env ''queue_item'' of
            Some (PyItem q) \<Rightarrow>
              (case env ''error_message'' of
                 Some (PyStr err) \<Rightarrow>
                   (Inr (),
                    commit_queue_item
                      (mark_failed now1 now2 q err
                         (case env ''should_retry'' of None \<Rightarrow> True | Some v \<Rightarrow> truthy v)) d)
               | _ \<Rightarrow> (Inl (OtherError ''StatementError''), d))
          | _ \<Rightarrow> (Inl AttributeError, d)))"

section \<open>The dispatcher (app/tasks/sms_tasks.py)\<close>

text \<open>
  The carrier is a parameter: \<open>provider to_number message callback_url\<close> is the
  response of \<^verbatim>\<open>send_sms\<close> or the exception it raises.
\<close>

type_synonym provider = "string option \<Rightarrow> string \<Rightarrow> string \<Rightarrow> exn + response"

definition permanent_error_codes :: "string list" where
  "permanent_error_codes = [''21211'', ''21214'', ''21408'', ''21610'', ''30007'', ''30008'']"

text \<open>\<^verbatim>\<open>_is_permanent_twilio_error\<close>, on the \<^verbatim>\<open>code\<close> attribute of the error.\<close>

definition is_permanent_twilio_error :: "string option \<Rightarrow> bool" where
  "is_permanent_twilio_error code =
     (case code of None \<Rightarrow> False | Some c \<Rightarrow> c \<in> set permanent_error_codes)"

text \<open>The status mapping written out in \<open>process_sms_batch\<close>.\<close>

definition send_internal_status :: "string \<Rightarrow> string" where
  "send_internal_status prov_status =
     (if prov_status \<in> set [''queued'', ''sending''] then ''sent''
      else if prov_status = ''delivered'' then ''delivered''
      else if prov_status \<in> set [''failed'', ''undelivered''] then ''failed''
      else ''sent'')"

text \<open>
  \<^verbatim>\<open>hasattr(locals(), 'message')\<close> asks the dictionary object for an attribute of that
  name: it holds for the names of a dictionary's methods (those with double underscores
  are left out here), whatever the local variables are.
\<close>

definition dict_attributes :: "string list" where
  "dict_attributes = [''clear'', ''copy'', ''fromkeys'', ''get'', ''items'', ''keys'',
     ''pop'', ''popitem'', ''setdefault'', ''update'', ''values'']"

definition hasattr_locals :: "string \<Rightarrow> bool" where
  "hasattr_locals name = (name \<in> set dict_attributes)"

text \<open>\<^verbatim>\<open>str(e)\<close>: the message of the exception.\<close>

definition str_exn :: "exn \<Rightarrow> string" where
  "str_exn e =
     (case e of
        TwilioApiError code m \<Rightarrow> m
      | OtherError m \<Rightarrow> m
      | TypeError \<Rightarrow> ''TypeError''
      | AttributeError \<Rightarrow> ''AttributeError''
      | ValueError v \<Rightarrow> ''ValueError''
      | _ \<Rightarrow> ''error'')"

text \<open>Decimal digits of an id, for the callback URL.\<close>

fun str_nat :: "nat \<Rightarrow> string" where
  "str_nat n =
     (if n < 10 then [''0123456789'' ! n]
      else str_nat (n div 10) @ [''0123456789'' ! (n mod 10)])"

declare str_nat.simps [simp del]

definition str_int :: "int \<Rightarrow> string" where
  "str_int i = (if i < 0 then CHR ''-'' # str_nat (nat (- i)) else str_nat (nat i))"

definition float_of_price :: "price \<Rightarrow> exn + real option" where
  "float_of_price p =
     (case p of
        NoPrice \<Rightarrow> Inr None
      | BadPrice \<Rightarrow> Inl (ValueError CouldNotConvertToFloat)
      | Price r \<Rightarrow> Inr (Some r))"

text \<open>
  \<^verbatim>\<open>response.get("status", "unknown")\<close>: the default stands in for an absent key only;
  a key that is present with \<^verbatim>\<open>None\<close> gives \<^verbatim>\<open>None\<close>.
\<close>

definition get_status_or_unknown :: "status_field \<Rightarrow> string option" where
  "get_status_or_unknown f =
     (case f of
        StatusAbsent \<Rightarrow> Some ''unknown''
      | StatusNone \<Rightarrow> None
      | StatusText s \<Rightarrow> Some s)"

definition pystr_opt :: "string option \<Rightarrow> pyval" where
  "pystr_opt v = (case v of None \<Rightarrow> PyNone | Some s \<Rightarrow> PyStr s)"

text \<open>
  One pass is modelled at one reading \<open>now\<close> of the clock, and \<open>elapsed\<close> is every
  measured duration in milliseconds.

  \<open>try_send\<close> is the body of the \<^verbatim>\<open>try\<close> for one item: its result is the exception
  that leaves the body if any, the local variable \<^verbatim>\<open>message\<close> if it was bound, and
  the database. A provider status \<^verbatim>\<open>None\<close> equals none of the words of the status
  mapping, which ends in its last branch.
\<close>

definition try_send ::
  "settings \<Rightarrow> provider \<Rightarrow> timestamp \<Rightarrow> int \<Rightarrow> queue_item \<Rightarrow> db \<Rightarrow>
   (exn + unit) \<times> message option \<times> db" where
  "try_send cfg send_sms now elapsed item d =
     (case mark_processing_py now (PyInt (qid item)) d of
        (Inl e, d0) \<Rightarrow> (Inl e, None, d0)
      | (Inr marked, d0) \<Rightarrow>
         (let created = create_message_record cfg now now now item ''processing'' None d0;
              msg = fst created;
              d1 = snd created;
              callback_url = getattr_default (BASE_URL cfg) ''http://localhost:8000'' @
                             ''/api/v1/webhooks/sms/status/'' @ str_int (id_message msg)
          in case get_contact d1 (contact_id item) of
               None \<Rightarrow> (Inl AttributeError, Some msg, d1)
             | Some c \<Rightarrow>
                (case send_sms (numero_telephone c) (message_content item) callback_url of
                   Inl e \<Rightarrow> (Inl e, Some msg, d1)
                 | Inr resp \<Rightarrow>
                    (let ext_id = sid resp;
                         prov_status = get_status_or_unknown (resp_status resp);
                         internal_status =
                           (case prov_status of
                              None \<Rightarrow> ''sent''
                            | Some s \<Rightarrow> send_internal_status s)
                     in case float_of_price (resp_price resp) of
                          Inl e \<Rightarrow> (Inl e, Some msg, d1)
                        | Inr new_cost \<Rightarrow>
                           (let logged = log_message_event now now msg internal_status
                                           ''sent'' prov_status (Some resp) None None
                                           ext_id new_cost (Some elapsed) (Some (qid item)) d1;
                                msg' = snd (fst logged);
                                d2 = snd logged;
                                sent = mark_sent_py now
                                         [(''queue_item_id'', PyInt (qid item)),
                                          (''external_message_id'', pystr_opt ext_id),
                                          (''provider_response'', PyResp resp)] d2
                            in (fst sent, Some msg', snd sent))))))"

text \<open>
  The two handlers. Each logs the failure when \<^verbatim>\<open>hasattr(locals(), 'message')\<close>
  holds, then calls \<open>mark_failed\<close> with keywords; an exception raised here leaves the
  loop.
\<close>

definition log_send_failed ::
  "timestamp \<Rightarrow> int \<Rightarrow> queue_item \<Rightarrow> message option \<Rightarrow> string \<Rightarrow> string \<Rightarrow> string \<Rightarrow>
   db \<Rightarrow> (exn + unit) \<times> db" where
  "log_send_failed now elapsed item local_message st code text d =
     (if hasattr_locals ''message''
      then (case local_message of
              None \<Rightarrow> (Inl UnboundLocalError, d)
            | Some msg \<Rightarrow>
               (Inr (),
                snd (log_message_event now now msg st ''send_failed'' (Some ''error'')
                       (Some (empty_response\<lparr>resp_error_code := Some code,
                                              resp_error_message := Some text\<rparr>))
                       (Some code) (Some text) None None (Some elapsed)
                       (Some (qid item)) d)))
      else (Inr (), d))"

definition handle_twilio_error ::
  "timestamp \<Rightarrow> int \<Rightarrow> queue_item \<Rightarrow> message option \<Rightarrow> string option \<Rightarrow> string \<Rightarrow>
   db \<Rightarrow> (exn + unit) \<times> db" where
  "handle_twilio_error now elapsed item local_message code text d =
     (let is_permanent_failure = is_permanent_twilio_error code
      in case log_send_failed now elapsed item local_message
                (if is_permanent_failure then ''failed'' else ''retry_pending'')
                (getattr_default code ''TWILIO_API_ERROR'') text d of
           (Inl e, d1) \<Rightarrow> (Inl e, d1)
         | (Inr u, d1) \<Rightarrow>
             mark_failed_py now now
               [(''queue_item_id'', PyInt (qid item)),
                (''error_message'', PyStr text),
                (''is_permanent'', PyBool is_permanent_failure)] d1)"

definition handle_exception ::
  "timestamp \<Rightarrow> int \<Rightarrow> queue_item \<Rightarrow> message option \<Rightarrow> exn \<Rightarrow> db \<Rightarrow> (exn + unit) \<times> db" where
  "handle_exception now elapsed item local_message e d =
     (case log_send_failed now elapsed item local_message ''failed'' ''INTERNAL_ERROR''
             (str_exn e) d of
        (Inl e', d1) \<Rightarrow> (Inl e', d1)
      | (Inr u, d1) \<Rightarrow>
          mark_failed_py now now
            [(''queue_item_id'', PyInt (qid item)),
             (''error_message'', PyStr (str_exn e)),
             (''is_permanent'', PyBool True)] d1)"

text \<open>
  One turn of the loop: \<open>Inr True\<close> when the item counts as sent, \<open>Inr False\<close> when it
  counts as failed, \<open>Inl e\<close> when \<open>e\<close> leaves the loop.
\<close>

definition process_item ::
  "settings \<Rightarrow> provider \<Rightarrow> timestamp \<Rightarrow> int \<Rightarrow> queue_item \<Rightarrow> db \<Rightarrow> (exn + bool) \<times> db" where
  "process_item cfg send_sms now elapsed item d =
     (case try_send cfg send_sms now elapsed item d of
        (Inr u, local_message, d1) \<Rightarrow> (Inr True, d1)
      | (Inl (TwilioApiError code text), local_message, d1) \<Rightarrow>
          (case handle_twilio_error now elapsed item local_message code text d1 of
             (Inl e, d2) \<Rightarrow> (Inl e, d2)
           | (Inr u, d2) \<Rightarrow> (Inr False, d2))
      | (Inl e, local_message, d1) \<Rightarrow>
          (case handle_exception now elapsed item local_message e d1 of
             (Inl e', d2) \<Rightarrow> (Inl e', d2)
           | (Inr u, d2) \<Rightarrow> (Inr False, d2)))"

text \<open>
  The result of a pass: the dictionary returned when nothing was pending, the tallies
  \<^verbatim>\<open>processed\<close>, \<^verbatim>\<open>sent\<close>, \<^verbatim>\<open>failed\<close>, or the dictionary with status \<^verbatim>\<open>error\<close> of
  the outer handler.
\<close>

datatype batch_result =
    NothingPending
  | Tallies nat nat nat
  | CriticalError exn

fun process_items ::
  "settings \<Rightarrow> provider \<Rightarrow> timestamp \<Rightarrow> int \<Rightarrow> queue_item list \<Rightarrow> nat \<Rightarrow> nat \<Rightarrow> nat \<Rightarrow>
   db \<Rightarrow> batch_result \<times> db" where
  "process_items cfg send_sms now elapsed [] processed_count success_count failed_count d =
     (Tallies processed_count success_count failed_count, d)"
| "process_items cfg send_sms now elapsed (item # rest) processed_count success_count
       failed_count d =
     (case process_item cfg send_sms now elapsed item d of
        (Inl e, d1) \<Rightarrow> (CriticalError e, d1)
      | (Inr ok, d1) \<Rightarrow>
          process_items cfg send_sms now elapsed rest (processed_count + 1)
            (if ok then success_count + 1 else success_count)
            (if ok then failed_count else failed_count + 1) d1)"

definition batch_size_of :: "rate_setting \<Rightarrow> int" where
  "batch_size_of r =
     (case r of
        RateInt parsed_limit \<Rightarrow> if parsed_limit > 0 then parsed_limit else 100
      | _ \<Rightarrow> 100)"

definition process_sms_batch ::
  "settings \<Rightarrow> provider \<Rightarrow> timestamp \<Rightarrow> int \<Rightarrow> db \<Rightarrow> batch_result \<times> db" where
  "process_sms_batch cfg send_sms now elapsed d =
     (let batch_size = batch_size_of (SMS_RATE_LIMIT cfg);
          pending_items = get_pending_messages now now (nat batch_size) True d
      in if pending_items = [] then (NothingPending, d)
         else process_items cfg send_sms now elapsed pending_items 0 0 0 d)"

section \<open>Concrete inputs\<close>

definition item0 :: queue_item where
  "item0 = \<lparr>qid = 1, campaign_id = Some 1, contact_id = 1, message_content = ''hello'',
     priority = 5, status = ''processing'', attempts = 0, max_attempts = 3,
     scheduled_at = Some 0, next_retry_at = None, last_attempt_at = Some 0,
     processed_at = None, external_message_id = None, error_message = None,
     created_at = 0\<rparr>"

definition lib0 :: phonelib where
  "lib0 = (\<lambda>number region. Some ''+33612345678'')"

definition cfg0 :: settings where
  "cfg0 = \<lparr>DEFAULT_COUNTRY_CODE = None, SMS_RATE_LIMIT = RateUnset, BASE_URL = None,
     TWILIO_PHONE_NUMBER = None\<rparr>"

definition db0 :: db where
  "db0 = \<lparr>contacts = [\<lparr>id_contact = 1, numero_telephone = Some ''+33612345678''\<rparr>],
     campaigns = [\<lparr>id_campagne = 1, statut = ''active'', mailing_lists = []\<rparr>],
     sms_queue = [], messages = [], message_logs = [],
     next_queue_id = 1, next_message_id = 1, next_log_id = 1\<rparr>"


text \<open>The row that \<open>add_to_queue\<close> stores for priority 5 and three attempts.\<close>

definition item1 :: queue_item where
  "item1 = \<lparr>qid = 1, campaign_id = Some 1, contact_id = 1, message_content = ''hello'',
     priority = 5, status = ''pending'', attempts = 0, max_attempts = 3,
     scheduled_at = Some 0, next_retry_at = None, last_attempt_at = None,
     processed_at = None, external_message_id = None, error_message = None,
     created_at = 0\<rparr>"

definition db1 :: db where
  "db1 = db0\<lparr>sms_queue := [item1], next_queue_id := 2\<rparr>"

definition carrier_ok :: provider where
  "carrier_ok = (\<lambda>to_number body callback_url.
     Inr \<lparr>sid = Some ''SM1'', resp_status = StatusText ''queued'', resp_price = NoPrice,
          resp_error_code = None, resp_error_message = None\<rparr>)"

text \<open>A queue with a cancelled row, a row scheduled for later and three pending rows.\<close>

definition db2 :: db where
  "db2 = db0\<lparr>sms_queue :=
     [item1\<lparr>qid := 1, priority := 7, created_at := 1\<rparr>,
      item1\<lparr>qid := 2, status := ''cancelled''\<rparr>,
      item1\<lparr>qid := 3, scheduled_at := Some 1000\<rparr>,
      item1\<lparr>qid := 4, priority := 2, created_at := 9\<rparr>,
      item1\<lparr>qid := 5, priority := 2, created_at := 4\<rparr>],
     next_queue_id := 6\<rparr>"

text \<open>
  A message that was sent under the external id SM1 at a cost of 5, with its two log
  rows; an earlier event has left an error message.
\<close>

definition msg_sent :: message where
  "msg_sent = \<lparr>id_message = 1, contenu = ''hello'', date_envoi = 10,
     statut_livraison = ''sent'', identifiant_expediteur = ''SMS-PLATFORM'',
     final_status = None, delivery_attempts = 2, delivery_timestamp = None,
     msg_external_message_id = Some ''SM1'', msg_error_message = Some ''old'',
     cost = Some 5, id_liste = None, id_contact_msg = 1, id_campagne_msg = Some 1,
     msg_queue_item_id = Some 1, updated_at = Some 10\<rparr>"

definition log_created :: message_log where
  "log_created = \<lparr>log_id = 1, message_id = 1, log_queue_item_id = Some 1,
     log_status = ''processing'', provider_status = None,
     provider_response = empty_response, error_code = None, log_error_message = None,
     attempt_number = 1, log_external_message_id = None, log_cost = None,
     processing_duration = None\<rparr>"

definition log_sent :: message_log where
  "log_sent = \<lparr>log_id = 2, message_id = 1, log_queue_item_id = Some 1,
     log_status = ''sent'', provider_status = Some ''queued'',
     provider_response =
       empty_response\<lparr>sid := Some ''SM1'', resp_status := StatusText ''queued''\<rparr>,
     error_code = None, log_error_message = None,
     attempt_number = 2, log_external_message_id = Some ''SM1'', log_cost = Some 5,
     processing_duration = Some 40\<rparr>"

definition db3 :: db where
  "db3 = db0\<lparr>messages := [msg_sent], message_logs := [log_created, log_sent],
            next_message_id := 2, next_log_id := 3\<rparr>"

section \<open>Lookups after a commit\<close>

lemma find_qid: "find (\<lambda>r. qid r = i) xs = Some q \<Longrightarrow> qid q = i"
  by (induction xs) (auto split: if_splits)

lemma find_map_update:
  "find (\<lambda>r. qid r = i) xs = Some q \<Longrightarrow> qid q' = i \<Longrightarrow>
   find (\<lambda>r. qid r = i) (map (\<lambda>r. if qid r = qid q' then q' else r) xs) = Some q'"
  by (induction xs) auto

lemma find_map_other:
  "qid q' \<noteq> j \<Longrightarrow>
   find (\<lambda>r. qid r = j) (map (\<lambda>r. if qid r = qid q' then q' else r) xs)
     = find (\<lambda>r. qid r = j) xs"
  by (induction xs) auto

lemma get_after_commit:
  assumes "get_queue_item d i = Some q" and "qid q' = qid q"
  shows "get_queue_item (commit_queue_item q' d) i = Some q'"
proof -
  from assms(1) have f: "find (\<lambda>r. qid r = i) (sms_queue d) = Some q"
    by (simp add: get_queue_item_def)
  then have "qid q = i"
    by (rule find_qid)
  with assms(2) have "qid q' = i"
    by simp
  with f have "find (\<lambda>r. qid r = i)
                 (map (\<lambda>r. if qid r = qid q' then q' else r) (sms_queue d)) = Some q'"
    by (rule find_map_update)
  then show ?thesis
    by (simp add: get_queue_item_def commit_queue_item_def)
qed

lemma get_other_after_commit:
  "qid q' \<noteq> j \<Longrightarrow> get_queue_item (commit_queue_item q' d) j = get_queue_item d j"
  by (simp add: get_queue_item_def commit_queue_item_def find_map_other)

lemma find_first_replaced:
  "find P xs = Some x \<Longrightarrow> P y \<Longrightarrow>
   find P (map (\<lambda>r. if g r = g x then y else r) xs) = Some y"
  by (induction xs) (auto split: if_splits)

section \<open>The queue service\<close>

text \<open>
  \<open>mark_sent\<close> and \<open>cancel_message\<close> store the time of the call in \<^verbatim>\<open>processed_at\<close>
  with the terminal status; \<open>mark_failed\<close> never writes the column.
\<close>

lemma mark_sent_sets_processed_at:
  "status (mark_sent now q ext) = ''sent'' \<and> processed_at (mark_sent now q ext) = Some now"
  by (simp add: mark_sent_def)

lemma cancel_message_sets_processed_at:
  assumes "fst (cancel_message now i reason d)"
  shows "\<exists>q. get_queue_item (snd (cancel_message now i reason d)) i = Some q \<and>
             status q = ''cancelled'' \<and> processed_at q = Some now"
proof -
  from assms obtain q where q: "get_queue_item d i = Some q"
      and s: "status q \<in> {''pending'', ''processing''}"
    by (auto simp add: cancel_message_def split: option.splits if_splits)
  let ?q' = "q\<lparr>status := ''cancelled'', error_message := Some reason, processed_at := Some now\<rparr>"
  from q s have "snd (cancel_message now i reason d) = commit_queue_item ?q' d"
    by (auto simp add: cancel_message_def)
  moreover have "get_queue_item (commit_queue_item ?q' d) i = Some ?q'"
    using q by (rule get_after_commit) simp
  ultimately show ?thesis
    by simp
qed

lemma mark_failed_keeps_processed_at:
  "processed_at (mark_failed now1 now2 q err should_retry) = processed_at q"
  by (simp add: mark_failed_def Let_def)

text \<open>
  C1. A queue item in a terminal status (sent, failed, cancelled) is to have
  \<^verbatim>\<open>processed_at\<close> set after \<open>mark_sent\<close>, \<open>mark_failed\<close> and \<open>cancel_message\<close>.
  \<open>mark_failed\<close> does not do it: on a processing item with a permanent error it gives
  status failed and leaves \<^verbatim>\<open>processed_at\<close> null.
\<close>

theorem mark_failed_leaves_processed_at_null:
  "status (mark_failed 100 100 item0 ''boom'' False) = ''failed'' \<and>
   processed_at (mark_failed 100 100 item0 ''boom'' False) = None"
  by (simp add: mark_failed_def item0_def)




text \<open>
  C5. \<open>get_pending_messages\<close> returns rows of the queue that are pending, scheduled at
  or before the first clock reading and without a retry time after the second, at
  most \<open>limit\<close> of them; a cancelled row is never among them; and in the default order
  they ascend by priority, then by \<^verbatim>\<open>created_at\<close>.
\<close>

theorem get_pending_messages_eligible_ordered:
  "(\<forall>q \<in> set (get_pending_messages now1 now2 limit priority_order d).
      q \<in> set (sms_queue d) \<and> status q = ''pending'' \<and> status q \<noteq> ''cancelled'' \<and>
      (\<exists>s. scheduled_at q = Some s \<and> s \<le> now1) \<and>
      (next_retry_at q = None \<or> (\<exists>r. next_retry_at q = Some r \<and> r \<le> now2))) \<and>
   length (get_pending_messages now1 now2 limit priority_order d) \<le> limit \<and>
   sorted_wrt (\<lambda>a b. priority a < priority b \<or>
                      (priority a = priority b \<and> created_at a \<le> created_at b))
     (get_pending_messages now1 now2 limit True d)"
proof (intro conjI ballI)
  fix q
  assume "q \<in> set (get_pending_messages now1 now2 limit priority_order d)"
  then have "q \<in> set (filter (pending_filter now1 now2) (sms_queue d))"
    by (auto simp add: get_pending_messages_def Let_def dest: in_set_takeD split: if_splits)
  then have in_q: "q \<in> set (sms_queue d)" and pf: "pending_filter now1 now2 q"
    by simp_all
  from in_q show "q \<in> set (sms_queue d)" .
  from pf show "status q = ''pending''"
    by (simp add: pending_filter_def)
  from pf show "status q \<noteq> ''cancelled''"
    by (simp add: pending_filter_def)
  from pf show "\<exists>s. scheduled_at q = Some s \<and> s \<le> now1"
    by (cases "scheduled_at q") (simp_all add: pending_filter_def)
  from pf show "next_retry_at q = None \<or> (\<exists>r. next_retry_at q = Some r \<and> r \<le> now2)"
    by (cases "next_retry_at q") (simp_all add: pending_filter_def)
next
  show "length (get_pending_messages now1 now2 limit priority_order d) \<le> limit"
    by (simp add: get_pending_messages_def Let_def)
next
  let ?key = "\<lambda>q. (priority q, created_at q)"
  let ?rows = "sort_key ?key (filter (pending_filter now1 now2) (sms_queue d))"
  have "sorted (map ?key ?rows)"
    by (rule sorted_sort_key)
  then have "sorted_wrt (\<lambda>a b. ?key a \<le> ?key b) ?rows"
    by (simp add: sorted_map)
  then have "sorted_wrt (\<lambda>a b. ?key a \<le> ?key b) (take limit ?rows)"
    by (rule sorted_wrt_take)
  then have "sorted_wrt (\<lambda>a b. priority a < priority b \<or>
                      (priority a = priority b \<and> created_at a \<le> created_at b))
               (take limit ?rows)"
    by (rule sorted_wrt_mono_rel [rotated]) (auto simp add: less_eq_prod_def)
  then show "sorted_wrt (\<lambda>a b. priority a < priority b \<or>
                      (priority a = priority b \<and> created_at a \<le> created_at b))
     (get_pending_messages now1 now2 limit True d)"
    by (simp add: get_pending_messages_def Let_def)
qed

theorem get_pending_messages_eligible_ordered_witness:
  "map qid (get_pending_messages 10 10 2 True db2) = [5, 4] \<and>
   list_all (\<lambda>q. status q = ''pending'' \<and> scheduled_at q = Some 0 \<and> next_retry_at q = None)
     (get_pending_messages 10 10 2 True db2) \<and>
   length (get_pending_messages 10 10 2 True db2) \<le> 2 \<and>
   sorted_wrt (\<lambda>a b. priority a < priority b \<or>
                      (priority a = priority b \<and> created_at a \<le> created_at b))
     (get_pending_messages 10 10 2 True db2)"
proof -
  have rows: "get_pending_messages 10 10 2 True db2 =
                [item1\<lparr>qid := 5, priority := 2, created_at := 4\<rparr>,
                 item1\<lparr>qid := 4, priority := 2, created_at := 9\<rparr>]"
    by (simp add: get_pending_messages_def db2_def db0_def item1_def pending_filter_def
                  less_eq_prod_def)
  from get_pending_messages_eligible_ordered [of 10 10 2 True db2] show ?thesis
    by (simp add: rows item1_def)
qed

text \<open>
  C6. \<open>reset_for_retry\<close> succeeds exactly when the item exists and its status is
  failed or \<^verbatim>\<open>retry_pending\<close>; then the row is pending with \<^verbatim>\<open>next_retry_at\<close> and
  \<^verbatim>\<open>error_message\<close> null and every other column, \<^verbatim>\<open>attempts\<close> among them, as before,
  and the other rows are as before; otherwise it returns false and the database is
  unchanged.
\<close>

theorem reset_for_retry_failed_or_retry_pending:
  "(fst (reset_for_retry i d) \<longleftrightarrow>
      (\<exists>q. get_queue_item d i = Some q \<and> status q \<in> {''failed'', ''retry_pending''})) \<and>
   (\<forall>q. get_queue_item d i = Some q \<and> status q \<in> {''failed'', ''retry_pending''} \<longrightarrow>
      get_queue_item (snd (reset_for_retry i d)) i
        = Some (q\<lparr>status := ''pending'', next_retry_at := None, error_message := None\<rparr>)) \<and>
   (\<forall>j. j \<noteq> i \<longrightarrow> get_queue_item (snd (reset_for_retry i d)) j = get_queue_item d j) \<and>
   (\<not> fst (reset_for_retry i d) \<longrightarrow> snd (reset_for_retry i d) = d)"
proof (cases "get_queue_item d i")
  case None
  then show ?thesis
    by (simp add: reset_for_retry_def)
next
  case (Some q)
  show ?thesis
  proof (cases "status q \<in> {''failed'', ''retry_pending''}")
    case False
    with Some show ?thesis
      by (simp add: reset_for_retry_def)
  next
    case True
    let ?q' = "q\<lparr>status := ''pending'', next_retry_at := None, error_message := None\<rparr>"
    from Some True have r: "reset_for_retry i d = (True, commit_queue_item ?q' d)"
      by (auto simp add: reset_for_retry_def)
    have a: "get_queue_item (commit_queue_item ?q' d) i = Some ?q'"
      using Some by (rule get_after_commit) simp
    from Some have "find (\<lambda>r. qid r = i) (sms_queue d) = Some q"
      by (simp add: get_queue_item_def)
    then have "qid q = i"
      by (rule find_qid)
    then have "qid ?q' = i"
      by simp
    then have b: "get_queue_item (commit_queue_item ?q' d) j = get_queue_item d j"
      if "j \<noteq> i" for j
      using that by (simp add: get_other_after_commit)
    from Some True r a b show ?thesis
      by simp
  qed
qed

theorem reset_for_retry_failed_or_retry_pending_witness:
  "fst (reset_for_retry 1 (db1\<lparr>sms_queue := [item0\<lparr>status := ''failed'', attempts := 3\<rparr>]\<rparr>)) \<and>
   get_queue_item
     (snd (reset_for_retry 1 (db1\<lparr>sms_queue := [item0\<lparr>status := ''failed'', attempts := 3\<rparr>]\<rparr>))) 1
     = Some (item0\<lparr>status := ''pending'', attempts := 3\<rparr>) \<and>
   reset_for_retry 1 db1 = (False, db1) \<and>
   reset_for_retry 7 db1 = (False, db1)"
proof -
  let ?q = "item0\<lparr>status := ''failed'', attempts := 3\<rparr>"
  let ?d = "db1\<lparr>sms_queue := [?q]\<rparr>"
  have g: "get_queue_item ?d 1 = Some ?q"
    by (simp add: get_queue_item_def item0_def)
  have st: "status ?q \<in> {''failed'', ''retry_pending''}"
    by simp
  have g1: "get_queue_item db1 1 = Some item1"
    by (simp add: get_queue_item_def db1_def item1_def)
  have st1: "status item1 \<notin> {''failed'', ''retry_pending''}"
    by (simp add: item1_def)
  have g7: "get_queue_item db1 7 = None"
    by (simp add: get_queue_item_def db1_def item1_def)
  note t = reset_for_retry_failed_or_retry_pending [of 1 ?d]
  from t g st have a: "fst (reset_for_retry 1 ?d)"
    by blast
  from t g st have "get_queue_item (snd (reset_for_retry 1 ?d)) 1
      = Some (?q\<lparr>status := ''pending'', next_retry_at := None, error_message := None\<rparr>)"
    by blast
  then have b: "get_queue_item (snd (reset_for_retry 1 ?d)) 1
      = Some (item0\<lparr>status := ''pending'', attempts := 3\<rparr>)"
    by (simp add: item0_def)
  from reset_for_retry_failed_or_retry_pending [of 1 db1] g1 st1
  have "\<not> fst (reset_for_retry 1 db1) \<and> snd (reset_for_retry 1 db1) = db1"
    by auto
  then have c: "reset_for_retry 1 db1 = (False, db1)"
    by (simp add: prod_eq_iff)
  from reset_for_retry_failed_or_retry_pending [of 7 db1] g7
  have "\<not> fst (reset_for_retry 7 db1) \<and> snd (reset_for_retry 7 db1) = db1"
    by auto
  then have e: "reset_for_retry 7 db1 = (False, db1)"
    by (simp add: prod_eq_iff)
  from a b c e show ?thesis
    by blast
qed

theorem reset_for_retry_accepts_retry_pending:
  "reset_for_retry 1 (db1\<lparr>sms_queue := [item0\<lparr>status := ''retry_pending''\<rparr>]\<rparr>)
     = (True, db1\<lparr>sms_queue := [item0\<lparr>status := ''pending''\<rparr>]\<rparr>)"
  by (simp add: reset_for_retry_def get_queue_item_def commit_queue_item_def item0_def)

text \<open>
  C4. \<open>add_to_queue\<close> raises \<^verbatim>\<open>ValueError\<close> exactly when the contact is missing, its
  phone number does not normalize, the campaign is missing or its status is neither
  active nor scheduled. It does not check the priority or \<^verbatim>\<open>max_attempts\<close> itself:
  with a priority outside 0..10 or \<^verbatim>\<open>max_attempts\<close> outside 1..10 the commit fails
  with the database's \<^verbatim>\<open>IntegrityError\<close>. Whenever it raises, no row is created;
  otherwise the new pending row is appended to the queue.
\<close>

theorem add_to_queue_validation:
  assumes "valid \<longleftrightarrow>
             (\<exists>c. get_contact d contact_i = Some c \<and>
                  (\<exists>e164. validate_and_format_phone_number lib (numero_telephone c)
                            (Some (getattr_default (DEFAULT_COUNTRY_CODE cfg) ''FR''))
                          = Inr e164)) \<and>
             (\<exists>cmp. get_campaign d campaign = Some cmp \<and>
                    statut cmp \<in> {''active'', ''scheduled''})"
      and "in_range \<longleftrightarrow> 0 \<le> prio \<and> prio \<le> 10 \<and> 1 \<le> max_att \<and> max_att \<le> 10"
      and "r = add_to_queue lib cfg now created campaign contact_i content scheduled
                 prio max_att d"
  shows "((\<exists>v. fst r = Inl (ValueError v)) \<longleftrightarrow> \<not> valid) \<and>
         (fst r = Inl IntegrityError \<longleftrightarrow> valid \<and> \<not> in_range) \<and>
         ((\<exists>q. fst r = Inr q) \<longleftrightarrow> valid \<and> in_range) \<and>
         ((\<exists>e. fst r = Inl e) \<longrightarrow> snd r = d) \<and>
         (\<forall>q. fst r = Inr q \<longrightarrow>
            sms_queue (snd r) = sms_queue d @ [q] \<and>
            status q = ''pending'' \<and> attempts q = 0 \<and>
            priority q = prio \<and> max_attempts q = max_att \<and>
            campaign_id q = Some campaign \<and> contact_id q = contact_i \<and>
            message_content q = content \<and>
            scheduled_at q = Some (case scheduled of None \<Rightarrow> now | Some t \<Rightarrow> t))"
proof (cases "get_contact d contact_i")
  case None
  with assms show ?thesis
    by (simp add: add_to_queue_def)
next
  case c: (Some c)
  show ?thesis
  proof (cases "validate_and_format_phone_number lib (numero_telephone c)
                  (Some (getattr_default (DEFAULT_COUNTRY_CODE cfg) ''FR''))")
    case (Inl e)
    with c assms show ?thesis
      by (simp add: add_to_queue_def)
  next
    case p: (Inr e164)
    show ?thesis
    proof (cases "get_campaign d campaign")
      case None
      with c p assms show ?thesis
        by (simp add: add_to_queue_def)
    next
      case cmp: (Some cmp)
      show ?thesis
      proof (cases "statut cmp \<in> {''active'', ''scheduled''}")
        case False
        with c p cmp assms show ?thesis
          by (simp add: add_to_queue_def)
      next
        case True
        with c p cmp assms(1) have v: valid
          by simp
        show ?thesis
        proof (cases in_range)
          case True
          with c p cmp \<open>statut cmp \<in> {''active'', ''scheduled''}\<close> v assms(2,3)
          show ?thesis
            by (simp add: add_to_queue_def sms_queue_checks_def default_attempts_def Let_def)
        next
          case False
          with c p cmp \<open>statut cmp \<in> {''active'', ''scheduled''}\<close> v assms(2,3)
          show ?thesis
            by (simp add: add_to_queue_def sms_queue_checks_def default_attempts_def Let_def)
        qed
      qed
    qed
  qed
qed

theorem add_to_queue_validation_witness:
  "(\<exists>q. fst (add_to_queue lib0 cfg0 0 0 1 1 ''hello'' None 5 3 db0) = Inr q) \<and>
   fst (add_to_queue lib0 cfg0 0 0 1 1 ''hello'' None 11 3 db0) = Inl IntegrityError \<and>
   snd (add_to_queue lib0 cfg0 0 0 1 1 ''hello'' None 11 3 db0) = db0 \<and>
   (\<exists>v. fst (add_to_queue lib0 cfg0 0 0 9 1 ''hello'' None 5 3 db0) = Inl (ValueError v)) \<and>
   snd (add_to_queue lib0 cfg0 0 0 9 1 ''hello'' None 5 3 db0) = db0"
proof -
  have c: "get_contact db0 1 = Some \<lparr>id_contact = 1, numero_telephone = Some ''+33612345678''\<rparr>"
    by (simp add: get_contact_def db0_def)
  have p: "validate_and_format_phone_number lib0 (Some ''+33612345678'')
             (Some (getattr_default (DEFAULT_COUNTRY_CODE cfg0) ''FR'')) = Inr ''+33612345678''"
    by (simp add: validate_and_format_phone_number_def lib0_def strip_def whitespace_def)
  have m: "get_campaign db0 1 = Some \<lparr>id_campagne = 1, statut = ''active'', mailing_lists = []\<rparr>"
    by (simp add: get_campaign_def db0_def)
  have m9: "get_campaign db0 9 = None"
    by (simp add: get_campaign_def db0_def)
  have a: "\<exists>q. fst (add_to_queue lib0 cfg0 0 0 1 1 ''hello'' None 5 3 db0) = Inr q"
    using add_to_queue_validation [where valid = True and in_range = True and d = db0
            and contact_i = 1 and lib = lib0 and cfg = cfg0 and campaign = 1 and prio = 5
            and max_att = 3 and now = 0 and created = 0 and content = "''hello''"
            and scheduled = None, OF _ _ refl]
    by (simp add: c p m)
  have b: "fst (add_to_queue lib0 cfg0 0 0 1 1 ''hello'' None 11 3 db0) = Inl IntegrityError \<and>
           snd (add_to_queue lib0 cfg0 0 0 1 1 ''hello'' None 11 3 db0) = db0"
    using add_to_queue_validation [where valid = True and in_range = False and d = db0
            and contact_i = 1 and lib = lib0 and cfg = cfg0 and campaign = 1 and prio = 11
            and max_att = 3 and now = 0 and created = 0 and content = "''hello''"
            and scheduled = None, OF _ _ refl]
    by (simp add: c p m)
  have e: "(\<exists>v. fst (add_to_queue lib0 cfg0 0 0 9 1 ''hello'' None 5 3 db0) = Inl (ValueError v)) \<and>
           snd (add_to_queue lib0 cfg0 0 0 9 1 ''hello'' None 5 3 db0) = db0"
    using add_to_queue_validation [where valid = False and in_range = True and d = db0
            and contact_i = 1 and lib = lib0 and cfg = cfg0 and campaign = 9 and prio = 5
            and max_att = 3 and now = 0 and created = 0 and content = "''hello''"
            and scheduled = None, OF _ _ refl]
    by (auto simp add: c p m9)
  from a b e show ?thesis
    by blast
qed

theorem add_to_queue_range_is_integrity_error:
  "fst (add_to_queue lib0 cfg0 0 0 1 1 ''hello'' None 11 3 db0) = Inl IntegrityError \<and>
   fst (add_to_queue lib0 cfg0 0 0 1 1 ''hello'' None 5 0 db0) = Inl IntegrityError"
  by (simp add: add_to_queue_def get_contact_def get_campaign_def db0_def lib0_def cfg0_def
        validate_and_format_phone_number_def strip_def whitespace_def getattr_default_def
        sms_queue_checks_def)

section \<open>The logging service\<close>

lemma log_message_event_message:
  "snd (fst (log_message_event now1 now2 msg st event_type prov_status prov_response
               err_code err_message ext_id new_cost duration q_item_id d)) =
   msg\<lparr>statut_livraison := st,
       delivery_attempts :=
         int (length (filter (\<lambda>l. message_id l = id_message msg) (message_logs d))) + 1,
       updated_at := Some now1,
       msg_external_message_id :=
         (if truthy_str ext_id then ext_id else msg_external_message_id msg),
       msg_error_message :=
         (if truthy_str err_message then err_message else msg_error_message msg),
       cost := (if truthy_num new_cost then new_cost else cost msg),
       final_status :=
         (if st \<in> {''delivered'', ''failed'', ''bounced''} then Some st else final_status msg),
       delivery_timestamp :=
         (if st = ''delivered'' then Some now2 else delivery_timestamp msg)\<rparr>"
  by (simp add: log_message_event_def Let_def)

lemma log_message_event_db:
  "snd (log_message_event now1 now2 msg st event_type prov_status prov_response
          err_code err_message ext_id new_cost duration q_item_id d) =
   commit_message
     (snd (fst (log_message_event now1 now2 msg st event_type prov_status prov_response
                  err_code err_message ext_id new_cost duration q_item_id d)))
     (d\<lparr>message_logs := message_logs d @
          [fst (fst (log_message_event now1 now2 msg st event_type prov_status prov_response
                       err_code err_message ext_id new_cost duration q_item_id d))],
        next_log_id := next_log_id d + 1\<rparr>)"
  by (simp add: log_message_event_def Let_def)

text \<open>
  C2. An event whose status is none of delivered, failed, bounced leaves
  \<^verbatim>\<open>final_status\<close> and \<^verbatim>\<open>delivery_timestamp\<close> as they were. An event with one of
  these statuses sets \<^verbatim>\<open>final_status\<close> to it, whatever it was before, and every
  delivered event sets \<^verbatim>\<open>delivery_timestamp\<close> to its own clock reading. A receipt for
  the external id of a message is such an event with the mapped provider status, on
  the row that the next receipt for this id finds again.
\<close>

theorem final_status_follows_last_terminal_event:
  assumes "m' = snd (fst (log_message_event now1 now2 msg st event_type prov_status
                            prov_response err_code err_message ext_id new_cost duration
                            q_item_id d))"
      and "get_message_by_external_id d0 ext = Some msg0"
      and "d0' = snd (update_delivery_status t1 t2 ext prov prov_resp d0)"
  shows "(st \<notin> {''delivered'', ''failed'', ''bounced''} \<longrightarrow>
            final_status m' = final_status msg \<and>
            delivery_timestamp m' = delivery_timestamp msg) \<and>
         (st \<in> {''delivered'', ''failed'', ''bounced''} \<longrightarrow> final_status m' = Some st) \<and>
         (st = ''delivered'' \<longrightarrow> delivery_timestamp m' = Some now2) \<and>
         (st \<noteq> ''delivered'' \<longrightarrow> delivery_timestamp m' = delivery_timestamp msg) \<and>
         (\<exists>m0'. get_message_by_external_id d0' ext = Some m0' \<and>
            final_status m0' =
              (if map_provider_status prov \<in> {''delivered'', ''failed'', ''bounced''}
               then Some (map_provider_status prov) else final_status msg0) \<and>
            delivery_timestamp m0' =
              (if map_provider_status prov = ''delivered'' then Some t2
               else delivery_timestamp msg0))"
proof -
  let ?ev = "log_message_event t1 t2 msg0 (map_provider_status prov) ''delivery_update''
               (Some prov) (Some prov_resp) (resp_error_code prov_resp)
               (resp_error_message prov_resp) None (extract_cost_from_response prov_resp)
               None None d0"
  let ?m = "snd (fst ?ev)"
  from assms(2) have found: "find (\<lambda>m. msg_external_message_id m = Some ext) (messages d0) = Some msg0"
    by (simp add: get_message_by_external_id_def)
  then have "msg_external_message_id msg0 = Some ext"
    by (induction "messages d0" arbitrary: d0) (auto dest: find_Some_iff [THEN iffD1])
  then have ext: "msg_external_message_id ?m = Some ext"
    by (simp add: log_message_event_message truthy_str_def)
  have idm: "id_message ?m = id_message msg0"
    by (simp add: log_message_event_message)
  from assms(2,3) have "d0' = snd ?ev"
    by (simp add: update_delivery_status_def Let_def)
  then have "messages d0' =
               map (\<lambda>r. if id_message r = id_message msg0 then ?m else r) (messages d0)"
    by (simp add: log_message_event_db commit_message_def idm)
  with found ext have "get_message_by_external_id d0' ext = Some ?m"
    by (simp add: get_message_by_external_id_def
                  find_first_replaced [where g = id_message and x = msg0])
  moreover have "final_status ?m =
              (if map_provider_status prov \<in> {''delivered'', ''failed'', ''bounced''}
               then Some (map_provider_status prov) else final_status msg0)"
    by (simp add: log_message_event_message)
  moreover have "delivery_timestamp ?m =
              (if map_provider_status prov = ''delivered'' then Some t2
               else delivery_timestamp msg0)"
    by (simp add: log_message_event_message)
  ultimately have last: "\<exists>m0'. get_message_by_external_id d0' ext = Some m0' \<and>
            final_status m0' =
              (if map_provider_status prov \<in> {''delivered'', ''failed'', ''bounced''}
               then Some (map_provider_status prov) else final_status msg0) \<and>
            delivery_timestamp m0' =
              (if map_provider_status prov = ''delivered'' then Some t2
               else delivery_timestamp msg0)"
    by blast
  from assms(1) have "final_status m' =
       (if st \<in> {''delivered'', ''failed'', ''bounced''} then Some st else final_status msg)"
    and "delivery_timestamp m' =
       (if st = ''delivered'' then Some now2 else delivery_timestamp msg)"
    by (simp_all add: log_message_event_message)
  with last show ?thesis
    by simp
qed

theorem final_status_follows_last_terminal_event_witness:
  "final_status (snd (fst (log_message_event 100 100 msg_sent ''delivered'' ''delivery_update''
                             None None None None None None None None db3)))
     = Some ''delivered'' \<and>
   (\<exists>m. get_message_by_external_id
          (snd (update_delivery_status 100 100 ''SM1'' ''delivered'' empty_response db3)) ''SM1''
          = Some m \<and>
        final_status m = Some ''delivered'' \<and> delivery_timestamp m = Some 100)"
proof -
  have g: "get_message_by_external_id db3 ''SM1'' = Some msg_sent"
    by (simp add: get_message_by_external_id_def db3_def msg_sent_def)
  have s: "map_provider_status ''delivered'' = ''delivered''"
    by (simp add: map_provider_status_def twilio_mapping_def lower_def lower_char_def)
  from final_status_follows_last_terminal_event
         [of _ 100 100 msg_sent "''delivered''" "''delivery_update''" None None None None
             None None None None db3 db3 "''SM1''" msg_sent _ 100 100 "''delivered''"
             empty_response,
          OF refl g refl]
  show ?thesis
    by (simp add: s)
qed

theorem final_status_and_delivery_timestamp_overwritten:
  "map final_status (messages (snd (update_delivery_status 100 100 ''SM1'' ''delivered''
       empty_response db3))) = [Some ''delivered''] \<and>
   map final_status (messages (snd (update_delivery_status 200 200 ''SM1'' ''failed''
       empty_response
       (snd (update_delivery_status 100 100 ''SM1'' ''delivered'' empty_response db3)))))
     = [Some ''failed''] \<and>
   map delivery_timestamp (messages (snd (update_delivery_status 100 100 ''SM1'' ''delivered''
       empty_response db3))) = [Some 100] \<and>
   map delivery_timestamp (messages (snd (update_delivery_status 200 200 ''SM1'' ''delivered''
       empty_response
       (snd (update_delivery_status 100 100 ''SM1'' ''delivered'' empty_response db3)))))
     = [Some 200]"
proof -
  have s: "map_provider_status ''delivered'' = ''delivered''"
          "map_provider_status ''failed'' = ''failed''"
    by (simp_all add: map_provider_status_def twilio_mapping_def lower_def lower_char_def)
  have first: "messages (snd (update_delivery_status 100 100 ''SM1'' ''delivered''
                  empty_response db3))
               = [msg_sent\<lparr>statut_livraison := ''delivered'', delivery_attempts := 3,
                    updated_at := Some 100, final_status := Some ''delivered'',
                    delivery_timestamp := Some 100\<rparr>]"
    by (simp add: update_delivery_status_def get_message_by_external_id_def db3_def db0_def
          msg_sent_def log_created_def log_sent_def s log_message_event_def commit_message_def truthy_str_def
          truthy_num_def extract_cost_from_response_def empty_response_def Let_def)
  have again: "messages d = [msg_sent\<lparr>statut_livraison := ''delivered'',
                    delivery_attempts := 3, updated_at := Some 100,
                    final_status := Some ''delivered'', delivery_timestamp := Some 100\<rparr>] \<Longrightarrow>
               map final_status (messages (snd (update_delivery_status 200 200 ''SM1''
                  ''failed'' empty_response d))) = [Some ''failed''] \<and>
               map delivery_timestamp (messages (snd (update_delivery_status 200 200 ''SM1''
                  ''delivered'' empty_response d))) = [Some 200]" for d
    by (simp add: update_delivery_status_def get_message_by_external_id_def
          msg_sent_def s log_message_event_def commit_message_def truthy_str_def
          truthy_num_def extract_cost_from_response_def empty_response_def Let_def)
  from first again [OF first] show ?thesis
    by simp
qed

text \<open>
  C7. The new log row's \<^verbatim>\<open>attempt_number\<close> is the count of the message's log rows
  plus one, the message's \<^verbatim>\<open>delivery_attempts\<close> is set to it, and
  \<^verbatim>\<open>external_message_id\<close>, \<^verbatim>\<open>error_message\<close> and \<^verbatim>\<open>cost\<close> are overwritten exactly
  when the new value is truthy: a null, an empty string or a zero cost keeps the
  stored value.
\<close>

theorem log_message_event_attempt_and_fields:
  assumes "r = log_message_event now1 now2 msg st event_type prov_status prov_response
                 err_code err_message ext_id new_cost duration q_item_id d"
  shows "attempt_number (fst (fst r)) =
           int (length (filter (\<lambda>l. message_id l = id_message msg) (message_logs d))) + 1 \<and>
         message_id (fst (fst r)) = id_message msg \<and>
         message_logs (snd r) = message_logs d @ [fst (fst r)] \<and>
         messages (snd r) =
           map (\<lambda>x. if id_message x = id_message msg then snd (fst r) else x) (messages d) \<and>
         delivery_attempts (snd (fst r)) = attempt_number (fst (fst r)) \<and>
         msg_external_message_id (snd (fst r)) =
           (if ext_id = None \<or> ext_id = Some [] then msg_external_message_id msg else ext_id) \<and>
         msg_error_message (snd (fst r)) =
           (if err_message = None \<or> err_message = Some [] then msg_error_message msg
            else err_message) \<and>
         cost (snd (fst r)) =
           (if new_cost = None \<or> new_cost = Some 0 then cost msg else new_cost)"
proof -
  have t: "truthy_str v \<longleftrightarrow> \<not> (v = None \<or> v = Some [])" for v
    by (cases v) (simp_all add: truthy_str_def)
  have n: "truthy_num v \<longleftrightarrow> \<not> (v = None \<or> v = Some 0)" for v
    by (cases v) (simp_all add: truthy_num_def)
  let ?count = "int (length (filter (\<lambda>l. message_id l = id_message msg) (message_logs d))) + 1"
  from assms have entry: "attempt_number (fst (fst r)) = ?count"
      "message_id (fst (fst r)) = id_message msg"
    by (simp_all add: log_message_event_def Let_def)
  from assms have m: "snd (fst r) =
      msg\<lparr>statut_livraison := st, delivery_attempts := ?count, updated_at := Some now1,
          msg_external_message_id :=
            (if truthy_str ext_id then ext_id else msg_external_message_id msg),
          msg_error_message :=
            (if truthy_str err_message then err_message else msg_error_message msg),
          cost := (if truthy_num new_cost then new_cost else cost msg),
          final_status :=
            (if st \<in> {''delivered'', ''failed'', ''bounced''} then Some st
             else final_status msg),
          delivery_timestamp :=
            (if st = ''delivered'' then Some now2 else delivery_timestamp msg)\<rparr>"
    by (simp only: log_message_event_message)
  from assms have stored: "snd r =
      commit_message (snd (fst r))
        (d\<lparr>message_logs := message_logs d @ [fst (fst r)],
           next_log_id := next_log_id d + 1\<rparr>)"
    by (simp only: log_message_event_db)
  have idm: "id_message (snd (fst r)) = id_message msg"
    by (simp add: m)
  have logs: "message_logs (snd r) = message_logs d @ [fst (fst r)]"
    by (subst stored) (simp add: commit_message_def)
  have rows: "messages (snd r) =
      map (\<lambda>x. if id_message x = id_message msg then snd (fst r) else x) (messages d)"
    by (subst stored) (simp add: commit_message_def idm)
  have att: "delivery_attempts (snd (fst r)) = attempt_number (fst (fst r))"
    by (simp add: m entry)
  have e: "msg_external_message_id (snd (fst r)) =
           (if ext_id = None \<or> ext_id = Some [] then msg_external_message_id msg else ext_id)"
    by (simp add: m t)
  have er: "msg_error_message (snd (fst r)) =
           (if err_message = None \<or> err_message = Some [] then msg_error_message msg
            else err_message)"
    by (simp add: m t)
  have c: "cost (snd (fst r)) =
           (if new_cost = None \<or> new_cost = Some 0 then cost msg else new_cost)"
    by (simp add: m n)
  from entry logs rows att e er c show ?thesis
    by (simp only: simp_thms)
qed

theorem log_message_event_attempt_and_fields_witness:
  "attempt_number (fst (fst (log_message_event 20 20 msg_sent ''sent'' ''sent'' None None None
      (Some ''timeout'') (Some ''SM2'') (Some 3) None None db3))) = 3 \<and>
   delivery_attempts (snd (fst (log_message_event 20 20 msg_sent ''sent'' ''sent'' None None None
      (Some ''timeout'') (Some ''SM2'') (Some 3) None None db3))) = 3 \<and>
   msg_external_message_id (snd (fst (log_message_event 20 20 msg_sent ''sent'' ''sent'' None
      None None (Some ''timeout'') (Some ''SM2'') (Some 3) None None db3))) = Some ''SM2'' \<and>
   msg_error_message (snd (fst (log_message_event 20 20 msg_sent ''sent'' ''sent'' None
      None None (Some ''timeout'') (Some ''SM2'') (Some 3) None None db3))) = Some ''timeout'' \<and>
   cost (snd (fst (log_message_event 20 20 msg_sent ''sent'' ''sent'' None
      None None (Some ''timeout'') (Some ''SM2'') (Some 3) None None db3))) = Some 3"
  using log_message_event_attempt_and_fields
          [of _ 20 20 msg_sent "''sent''" "''sent''" None None None "Some ''timeout''"
              "Some ''SM2''" "Some 3" None None db3, OF refl]
  by (simp add: db3_def db0_def msg_sent_def log_created_def log_sent_def)

theorem log_message_event_keeps_value_on_zero_or_empty:
  "cost (snd (fst (log_message_event 20 20 msg_sent ''sent'' ''delivery_update'' None None
      None (Some '''') None (Some 0) None None db3))) = Some 5 \<and>
   msg_error_message (snd (fst (log_message_event 20 20 msg_sent ''sent'' ''delivery_update''
      None None None (Some '''') None (Some 0) None None db3))) = Some ''old''"
  by (simp add: log_message_event_def msg_sent_def truthy_str_def truthy_num_def Let_def)

text \<open>
  C8. \<^verbatim>\<open>_map_provider_status\<close> looks the lowered status up: a status that lowers to
  queued, sending or sent gives sent; to delivered or read, delivered; to failed or
  undelivered, failed; any other status is passed through as it was given. The send
  path of the dispatcher compares the status as given: queued and sending give sent,
  delivered gives delivered, failed and undelivered give failed, and every other
  status gives sent.
\<close>

theorem provider_status_mappings:
  "(lower s \<in> {''queued'', ''sending'', ''sent''} \<longrightarrow> map_provider_status s = ''sent'') \<and>
   (lower s \<in> {''delivered'', ''read''} \<longrightarrow> map_provider_status s = ''delivered'') \<and>
   (lower s \<in> {''failed'', ''undelivered''} \<longrightarrow> map_provider_status s = ''failed'') \<and>
   (lower s \<notin> {''queued'', ''sending'', ''sent'', ''delivered'', ''read'', ''failed'',
                ''undelivered''} \<longrightarrow> map_provider_status s = s) \<and>
   (s \<in> {''queued'', ''sending''} \<longrightarrow> send_internal_status s = ''sent'') \<and>
   (s = ''delivered'' \<longrightarrow> send_internal_status s = ''delivered'') \<and>
   (s \<in> {''failed'', ''undelivered''} \<longrightarrow> send_internal_status s = ''failed'') \<and>
   (s \<notin> {''queued'', ''sending'', ''delivered'', ''failed'', ''undelivered''} \<longrightarrow>
      send_internal_status s = ''sent'')"
proof -
  have m: "map_provider_status s =
             (case map_of twilio_mapping (lower s) of None \<Rightarrow> s | Some internal \<Rightarrow> internal)"
    by (simp add: map_provider_status_def)
  have "lower s \<in> {''queued'', ''sending'', ''sent''} \<longrightarrow> map_provider_status s = ''sent''"
    by (auto simp add: m twilio_mapping_def)
  moreover have "lower s \<in> {''delivered'', ''read''} \<longrightarrow> map_provider_status s = ''delivered''"
    by (auto simp add: m twilio_mapping_def)
  moreover have "lower s \<in> {''failed'', ''undelivered''} \<longrightarrow> map_provider_status s = ''failed''"
    by (auto simp add: m twilio_mapping_def)
  moreover have "lower s \<notin> {''queued'', ''sending'', ''sent'', ''delivered'', ''read'',
                   ''failed'', ''undelivered''} \<longrightarrow> map_provider_status s = s"
    by (simp add: m twilio_mapping_def)
  moreover have "s \<in> {''queued'', ''sending''} \<longrightarrow> send_internal_status s = ''sent''"
    by (auto simp add: send_internal_status_def)
  moreover have "s = ''delivered'' \<longrightarrow> send_internal_status s = ''delivered''"
    by (simp add: send_internal_status_def)
  moreover have "s \<in> {''failed'', ''undelivered''} \<longrightarrow> send_internal_status s = ''failed''"
    by (auto simp add: send_internal_status_def)
  moreover have "s \<notin> {''queued'', ''sending'', ''delivered'', ''failed'', ''undelivered''} \<longrightarrow>
                   send_internal_status s = ''sent''"
    by (simp add: send_internal_status_def)
  ultimately show ?thesis
    by blast
qed

lemma lower_examples:
  "lower ''queued'' = ''queued''" "lower ''Delivered'' = ''delivered''"
  "lower ''accepted'' = ''accepted''" "lower ''UNDELIVERED'' = ''undelivered''"
  by (simp_all add: lower_def lower_char_def)

theorem provider_status_mappings_witness:
  "map_provider_status ''queued'' = ''sent'' \<and>
   map_provider_status ''Delivered'' = ''delivered'' \<and>
   map_provider_status ''UNDELIVERED'' = ''failed'' \<and>
   map_provider_status ''accepted'' = ''accepted'' \<and>
   send_internal_status ''queued'' = ''sent'' \<and>
   send_internal_status ''delivered'' = ''delivered'' \<and>
   send_internal_status ''undelivered'' = ''failed'' \<and>
   send_internal_status ''accepted'' = ''sent''"
  using provider_status_mappings [of "''queued''"] provider_status_mappings [of "''Delivered''"]
        provider_status_mappings [of "''UNDELIVERED''"]
        provider_status_mappings [of "''accepted''"]
        provider_status_mappings [of "''delivered''"]
        provider_status_mappings [of "''undelivered''"]
  by (simp add: lower_examples)

theorem provider_status_not_passed_through:
  "map_provider_status ''QUEUED'' = ''sent'' \<and>
   send_internal_status ''read'' = ''sent'' \<and>
   send_internal_status ''accepted'' = ''sent''"
  by (simp add: map_provider_status_def twilio_mapping_def lower_def lower_char_def
        send_internal_status_def)

text \<open>
  C10. For a campaign that no message row belongs to, \<open>get_campaign_message_stats\<close>
  returns, without raising, the statistics with no messages, empty breakdown and error
  summary, and rates, average time and total cost zero.
\<close>

theorem get_campaign_message_stats_empty:
  assumes "\<forall>m \<in> set (messages d). id_campagne_msg m \<noteq> Some campaign"
  shows "get_campaign_message_stats campaign d =
           Inr \<lparr>total_messages = 0, status_breakdown = Map.empty, delivery_rate = 0,
                average_delivery_time = 0, total_cost = 0, retry_rate = 0,
                error_summary = Map.empty\<rparr>"
proof -
  from assms have "filter (\<lambda>m. id_campagne_msg m = Some campaign) (messages d) = []"
    by (simp add: filter_empty_conv)
  then show ?thesis
    by (simp add: get_campaign_message_stats_def)
qed

theorem get_campaign_message_stats_empty_witness:
  "get_campaign_message_stats 2 db3 =
     Inr \<lparr>total_messages = 0, status_breakdown = Map.empty, delivery_rate = 0,
          average_delivery_time = 0, total_cost = 0, retry_rate = 0,
          error_summary = Map.empty\<rparr> \<and>
   messages db3 = [msg_sent] \<and> id_campagne_msg msg_sent = Some 1"
  using get_campaign_message_stats_empty [of db3 2]
  by (simp add: db3_def db0_def msg_sent_def)

section \<open>The dispatcher\<close>

text \<open>
  C9. One item is submitted with priority 5 and three attempts, and the carrier accepts
  every send with the external id SM1 and the provider status queued. The scenario of
  the specification ends with the row sent under SM1, a message row with status sent,
  two log rows and the tallies 1, 1, 0. The pass of the code ends in the outer handler
  with a \<^verbatim>\<open>TypeError\<close> instead: \<open>mark_processing\<close> is given the item's id, the
  handler's call of \<open>mark_failed\<close> names parameters the method does not have, and the
  queue row stays pending with no message and no log row written.
\<close>

theorem process_sms_batch_happy_path_ends_in_type_error:
  "add_to_queue lib0 cfg0 0 0 1 1 ''hello'' None 5 3 db0 = (Inr item1, db1) \<and>
   process_sms_batch cfg0 carrier_ok 10 5 db1 = (CriticalError TypeError, db1) \<and>
   map status (sms_queue db1) = [''pending''] \<and>
   map external_message_id (sms_queue db1) = [None] \<and>
   messages db1 = [] \<and> message_logs db1 = []"
proof -
  have submit: "add_to_queue lib0 cfg0 0 0 1 1 ''hello'' None 5 3 db0 = (Inr item1, db1)"
    by (simp add: add_to_queue_def get_contact_def get_campaign_def db0_def db1_def
          item1_def lib0_def cfg0_def validate_and_format_phone_number_def strip_def
          whitespace_def getattr_default_def sms_queue_checks_def default_attempts_def
          Let_def)
  have pending: "get_pending_messages 10 10 100 True db1 = [item1]"
    by (simp add: get_pending_messages_def db1_def db0_def item1_def pending_filter_def Let_def)
  have body: "try_send cfg0 carrier_ok 10 5 item1 db1 = (Inl TypeError, None, db1)"
    by (simp add: try_send_def mark_processing_py_def truthy_def item1_def)
  have handler: "handle_exception 10 5 item1 None TypeError db1 = (Inl TypeError, db1)"
    by (simp add: handle_exception_def log_send_failed_def hasattr_locals_def
          dict_attributes_def mark_failed_py_def bind_keywords_def mark_failed_params_def Let_def)
  have item: "process_item cfg0 carrier_ok 10 5 item1 db1 = (Inl TypeError, db1)"
    by (simp add: process_item_def body handler)
  have size: "nat (batch_size_of (SMS_RATE_LIMIT cfg0)) = 100"
    by (simp add: batch_size_of_def cfg0_def)
  have "process_sms_batch cfg0 carrier_ok 10 5 db1 = (CriticalError TypeError, db1)"
    by (simp add: process_sms_batch_def size pending item Let_def)
  with submit show ?thesis
    by (simp add: db1_def db0_def item1_def)
qed

text \<open>
  The same holds for every pass that finds a pending item: the calls of \<open>mark_sent\<close>
  and \<open>mark_failed\<close> never bind their keywords, so no turn of the loop ends without
  an exception that leaves it.
\<close>

lemma mark_sent_py_dispatcher_keywords:
  "mark_sent_py now [(''queue_item_id'', a), (''external_message_id'', b),
                     (''provider_response'', c)] d = (Inl TypeError, d)"
  by (simp add: mark_sent_py_def bind_keywords_def mark_sent_params_def)

lemma mark_failed_py_dispatcher_keywords:
  "mark_failed_py now1 now2 [(''queue_item_id'', a), (''error_message'', b),
                             (''is_permanent'', c)] d = (Inl TypeError, d)"
  by (simp add: mark_failed_py_def bind_keywords_def mark_failed_params_def)

lemma log_send_failed_skipped:
  "log_send_failed now elapsed item local_message st code text d = (Inr (), d)"
  by (simp add: log_send_failed_def hasattr_locals_def dict_attributes_def)

lemma try_send_raises:
  "\<exists>e. fst (try_send cfg send_sms now elapsed item d) = Inl e"
  by (simp add: try_send_def Let_def mark_sent_py_dispatcher_keywords
           split: prod.splits sum.splits option.splits)

lemma process_item_raises:
  "fst (process_item cfg send_sms now elapsed item d) = Inl TypeError"
proof -
  obtain r m d1 where t: "try_send cfg send_sms now elapsed item d = (r, m, d1)"
    by (cases "try_send cfg send_sms now elapsed item d") auto
  with try_send_raises [of cfg send_sms now elapsed item d] obtain e where "r = Inl e"
    by auto
  with t show ?thesis
    by (cases e)
       (simp_all add: process_item_def handle_twilio_error_def handle_exception_def
          log_send_failed_skipped mark_failed_py_dispatcher_keywords Let_def)
qed

lemma process_sms_batch_never_completes:
  assumes "get_pending_messages now now (nat (batch_size_of (SMS_RATE_LIMIT cfg))) True d \<noteq> []"
  shows "fst (process_sms_batch cfg send_sms now elapsed d) = CriticalError TypeError"
proof -
  from assms obtain item rest where
    p: "get_pending_messages now now (nat (batch_size_of (SMS_RATE_LIMIT cfg))) True d = item # rest"
    by (cases "get_pending_messages now now (nat (batch_size_of (SMS_RATE_LIMIT cfg))) True d") auto
  obtain d1 where "process_item cfg send_sms now elapsed item d = (Inl TypeError, d1)"
    using process_item_raises [of cfg send_sms now elapsed item d]
    by (cases "process_item cfg send_sms now elapsed item d") auto
  with p show ?thesis
    by (simp add: process_sms_batch_def Let_def)
qed

end
